theory Spec2Isabelle
  imports Complex_Main "HOL-Library.Multiset" "HOL-Library.Char_ord" "HOL-Library.List_Lexorder"
begin

section \<open>Generation request orchestration (backend/routers/generation.py)\<close>

text \<open>
  A shallow embedding of the generation router: the cache-key fingerprint, the in-memory
  result cache, the quality score, the single-request handler \<open>generate_image\<close> with its
  retry loop and record updates, and the batch handler \<open>batch_generate_images\<close>.

  Conventions.
  \<^item> A Python \<open>dict\<close> with string keys is an association list in insertion order; a value
    of type \<open>Optional[str]\<close> is a \<open>string option\<close> (\<open>None\<close> is Python's \<open>None\<close>).
  \<^item> \<open>datetime\<close> values are integers counting microseconds, \<open>timedelta\<close> values too.
  \<^item> Python floats are idealised as rationals.
  \<^item> An exception is a value of type \<open>exn\<close>; a call that may raise returns \<open>exn + 'a\<close>.
  \<^item> Module state (the cache), the database session, the clock and the calls made to the
    two collaborators are fields of an explicit \<open>world\<close>; the answers of the collaborators
    and the library functions the module imports are fields of an environment \<open>env\<close>.
  \<^item> Logging is not modelled.
\<close>

subsection \<open>Data model\<close>

type_synonym pdict = "(string \<times> string option) list"

datatype exn =
    PyException string
  | HTTPException nat string
  | RequestValidationError string

record GenerationRequest =
  prompt :: string
  mode :: string
  camera_angle :: "string option"
  fov :: "string option"
  lighting :: "string option"
  color_palette :: "string option"
  composition :: "string option"
  style :: "string option"
  project_id :: "int option"
  user_id :: int
  use_cache :: bool
  max_retries :: nat

text \<open>
  \<open>response_data\<close> is the dictionary built at the end of a successful generation (and the
  payload stored in the cache); \<open>GenerationResponse\<close> adds the \<open>cached\<close> flag, whose
  default is \<open>False\<close>. The field \<open>id\<close> is called \<open>rid\<close>.
\<close>

record response_data =
  rid :: nat
  status :: string
  image_url :: "string option"
  parameters :: pdict
  quality_score :: "rat option"
  generation_time :: "rat option"
  reasoning :: "(string \<times> string) list option"
  retry_count :: nat

record GenerationResponse = response_data +
  cached :: bool

definition GenerationResponse :: "response_data \<Rightarrow> bool \<Rightarrow> GenerationResponse" where
  "GenerationResponse d c = response_data.extend d \<lparr>cached = c\<rparr>"

text \<open>The dictionary returned by \<open>fibo_integration.generate\<close> (its \<open>raw_response\<close> entry,
  which the router never reads, is left out).\<close>

record fibo_result =
  res_status :: string
  res_image_url :: "string option"
  res_parameters :: pdict

record cache_entry =
  data :: response_data
  timestamp :: int

type_synonym cache = "string \<rightharpoonup> cache_entry"

text \<open>The environment: library functions the module imports, and the answers of the two
  collaborators, indexed by the number of the call.\<close>

record env =
  md5_hexdigest :: "string \<Rightarrow> string"
  json_string :: "string \<Rightarrow> string"
  http_exception_str :: "nat \<Rightarrow> string \<Rightarrow> string"
  analyze_intent :: "nat \<Rightarrow> exn + (pdict option \<times> (string \<times> string) list option)"
  fibo_api :: "nat \<Rightarrow> exn + string option"

subsection \<open>Small Python library functions\<close>

definition truthy :: "string option \<Rightarrow> bool" where
  "truthy v = (case v of None \<Rightarrow> False | Some s \<Rightarrow> s \<noteq> [])"

fun join :: "string \<Rightarrow> string list \<Rightarrow> string" where
  "join sep [] = []"
| "join sep [x] = x"
| "join sep (x # y # ys) = x @ sep @ join sep (y # ys)"

fun str_nat :: "nat \<Rightarrow> string" where
  "str_nat n =
     (if n < 10 then [char_of (48 + n)]
      else str_nat (n div 10) @ [char_of (48 + n mod 10)])"

declare str_nat.simps [simp del]

fun str_exn :: "env \<Rightarrow> exn \<Rightarrow> string" where
  "str_exn E (PyException m) = m"
| "str_exn E (HTTPException c d) = http_exception_str E c d"
| "str_exn E (RequestValidationError m) = m"

text \<open>\<open>json.dumps(d, sort_keys=True)\<close> for a dictionary of strings and \<open>None\<close>: the items
  sorted by key, separated by \<open>", "\<close> and \<open>": "\<close>. The escaping of a string is the
  environment's \<open>json_string\<close>.\<close>

definition json_item :: "env \<Rightarrow> string \<times> string option \<Rightarrow> string" where
  "json_item E kv =
     json_string E (fst kv) @ '': '' @
     (case snd kv of None \<Rightarrow> ''null'' | Some s \<Rightarrow> json_string E s)"

definition json_dumps_sorted :: "env \<Rightarrow> pdict \<Rightarrow> string" where
  "json_dumps_sorted E d = ''{'' @ join '', '' (map (json_item E) (sort_key fst d)) @ ''}''"

subsection \<open>Fingerprint\<close>

definition key_data :: "GenerationRequest \<Rightarrow> pdict" where
  "key_data request =
     [(''prompt'', Some (prompt request)),
      (''mode'', Some (mode request)),
      (''camera_angle'', camera_angle request),
      (''fov'', fov request),
      (''lighting'', lighting request),
      (''color_palette'', color_palette request),
      (''composition'', composition request),
      (''style'', style request)]"

definition generate_cache_key :: "env \<Rightarrow> GenerationRequest \<Rightarrow> string" where
  "generate_cache_key E request =
     (let key_str = json_dumps_sorted E (key_data request)
      in md5_hexdigest E key_str)"

subsection \<open>Result cache\<close>

definition CACHE_TTL :: int where
  "CACHE_TTL = 3600 * 1000000"

definition get_cached_result :: "string \<Rightarrow> int \<Rightarrow> cache \<Rightarrow> response_data option \<times> cache" where
  "get_cached_result cache_key now generation_cache =
     (case generation_cache cache_key of
        Some entry \<Rightarrow>
          if now - timestamp entry < CACHE_TTL then (Some (data entry), generation_cache)
          else (None, generation_cache(cache_key := None))
      | None \<Rightarrow> (None, generation_cache))"

definition cache_result :: "string \<Rightarrow> response_data \<Rightarrow> int \<Rightarrow> cache \<Rightarrow> cache" where
  "cache_result cache_key d now generation_cache =
     generation_cache(cache_key \<mapsto> \<lparr>data = d, timestamp = now\<rparr>)"

subsection \<open>Quality score\<close>

definition calculate_quality_score :: "pdict \<Rightarrow> fibo_result \<Rightarrow> rat" where
  "calculate_quality_score params result =
     (let score = 1 / 2;
          param_count = length (filter (\<lambda>v. v \<noteq> None) (map snd params));
          score = score + min (of_nat param_count * (5 / 100)) (3 / 10);
          score = (if truthy (res_image_url result) then score + 2 / 10 else score)
      in min score 1)"



subsection \<open>The world\<close>

text \<open>
  The database holds the rows of the \<open>generations\<close> table in insertion order; the primary
  key of a row is its position plus one. Commits are taken to succeed. The trace records,
  in order, every write to the table and every call that leaves the process.
\<close>

record Generation =
  g_id :: nat
  g_user_id :: int
  g_project_id :: "int option"
  g_prompt :: string
  g_mode :: string
  g_parameters :: "pdict option"
  g_result_url :: "string option"
  g_quality_score :: "rat option"
  g_generation_time :: "rat option"
  g_status :: string
  g_error_message :: "string option"
  g_created_at :: int
  g_completed_at :: "int option"

datatype event =
    DbAdd nat string
  | DbCommit nat string
  | AnalyzeIntent
  | Generate
  | Sleep nat

record world =
  generation_cache :: cache
  db :: "Generation list"
  clock :: int
  agent_calls :: nat
  upstream_calls :: nat
  trace :: "event list"

definition emit :: "event \<Rightarrow> world \<Rightarrow> world" where
  "emit ev w = w\<lparr>trace := trace w @ [ev]\<rparr>"

text \<open>\<open>asyncio.sleep(wait_time)\<close>, in seconds.\<close>

definition sleep :: "nat \<Rightarrow> world \<Rightarrow> world" where
  "sleep wait_time w = emit (Sleep wait_time) (w\<lparr>clock := clock w + int wait_time * 1000000\<rparr>)"

text \<open>\<open>Generation(...); db.add; db.commit; db.refresh\<close>: the columns not given take their
  defaults, the key is assigned by the table.\<close>

definition db_add :: "GenerationRequest \<Rightarrow> string \<Rightarrow> world \<Rightarrow> Generation \<times> world" where
  "db_add request st w =
     (let new_id = Suc (length (db w));
          generation = \<lparr>g_id = new_id, g_user_id = user_id request,
            g_project_id = project_id request, g_prompt = prompt request,
            g_mode = mode request, g_parameters = None, g_result_url = None,
            g_quality_score = None, g_generation_time = None, g_status = st,
            g_error_message = None, g_created_at = clock w, g_completed_at = None\<rparr>
      in (generation, emit (DbAdd new_id st) (w\<lparr>db := db w @ [generation]\<rparr>)))"

text \<open>\<open>db.commit()\<close> after the attributes of \<open>generation\<close> were assigned: the row with
  its key is replaced.\<close>

definition db_commit :: "Generation \<Rightarrow> world \<Rightarrow> world" where
  "db_commit generation w =
     emit (DbCommit (g_id generation) (g_status generation))
       (w\<lparr>db := (db w)[g_id generation - 1 := generation]\<rparr>)"

subsection \<open>The upstream call\<close>

record gen_args =
  a_prompt :: "string option"
  a_camera_angle :: "string option"
  a_fov :: "string option"
  a_lighting :: "string option"
  a_color_palette :: "string option"
  a_composition :: "string option"
  a_style :: "string option"

text \<open>The dictionary \<open>fibo_integration.generate\<close> returns when the service answered.\<close>

definition fibo_success :: "gen_args \<Rightarrow> string option \<Rightarrow> fibo_result" where
  "fibo_success a url =
     \<lparr>res_status = ''success'', res_image_url = url,
      res_parameters =
        [(''prompt'', a_prompt a),
         (''camera_angle'', a_camera_angle a),
         (''fov'', a_fov a),
         (''lighting'', a_lighting a),
         (''color_palette'', a_color_palette a),
         (''composition'', a_composition a),
         (''style'', a_style a)]\<rparr>"

text \<open>\<open>fibo_integration.generate\<close>: one call to the rendering service. The service's answer
  is the environment's: an exception, or the image reference found in the reply.\<close>

definition fibo_generate :: "env \<Rightarrow> gen_args \<Rightarrow> world \<Rightarrow> (exn + fibo_result) \<times> world" where
  "fibo_generate E a w =
     (let w1 = emit Generate (w\<lparr>upstream_calls := Suc (upstream_calls w)\<rparr>)
      in case fibo_api E (upstream_calls w) of
           Inl e \<Rightarrow> (Inl e, w1)
         | Inr url \<Rightarrow> (Inr (fibo_success a url), w1))"

text \<open>\<open>fibo_agent.analyze_intent\<close>, followed by the two \<open>.get\<close> with their defaults.\<close>

definition agent_analyze :: "env \<Rightarrow> world \<Rightarrow> (exn + pdict \<times> (string \<times> string) list) \<times> world" where
  "agent_analyze E w =
     (let w1 = emit AnalyzeIntent (w\<lparr>agent_calls := Suc (agent_calls w)\<rparr>)
      in case analyze_intent E (agent_calls w) of
           Inl e \<Rightarrow> (Inl e, w1)
         | Inr (p, r) \<Rightarrow>
             (Inr (case p of None \<Rightarrow> [] | Some d \<Rightarrow> d, case r of None \<Rightarrow> [] | Some d \<Rightarrow> d), w1))"

definition dict_get :: "pdict \<Rightarrow> string \<Rightarrow> string option" where
  "dict_get d k = (case map_of d k of None \<Rightarrow> None | Some v \<Rightarrow> v)"

definition dict_get_default :: "pdict \<Rightarrow> string \<Rightarrow> string option \<Rightarrow> string option" where
  "dict_get_default d k dflt = (case map_of d k of None \<Rightarrow> dflt | Some v \<Rightarrow> v)"

subsection \<open>The retry loop\<close>

text \<open>
  The loop \<open>for attempt in range(request.max_retries + 1)\<close>, which the source writes out
  once per mode with different arguments for the call. The loop state is
  \<open>(retry_count, last_error, result)\<close>; \<open>Inl\<close> is the \<open>raise last_error\<close>.
\<close>

type_synonym retry_state = "nat \<times> exn option \<times> fibo_result option"

fun retry_loop ::
  "env \<Rightarrow> gen_args \<Rightarrow> nat \<Rightarrow> nat list \<Rightarrow> retry_state \<Rightarrow> world \<Rightarrow> (exn + retry_state) \<times> world" where
  "retry_loop E a mr [] st w = (Inr st, w)"
| "retry_loop E a mr (attempt # rest) (rc, last_error, result) w =
     (case fibo_generate E a w of
        (Inr r, w1) \<Rightarrow> (Inr (rc, last_error, Some r), w1)
      | (Inl e, w1) \<Rightarrow>
          if attempt < mr then retry_loop E a mr rest (attempt + 1, Some e, result) (sleep (2 ^ attempt) w1)
          else (Inl e, w1))"

subsection \<open>The single-request handler\<close>

text \<open>AI mode: the parameters suggested by the agent, or the fixed defaults when the agent
  fails.\<close>

definition resolve_ai ::
  "env \<Rightarrow> GenerationRequest \<Rightarrow> world \<Rightarrow> (pdict \<times> (string \<times> string) list) \<times> world" where
  "resolve_ai E request w =
     (case agent_analyze E w of
        (Inr pr, w1) \<Rightarrow> (pr, w1)
      | (Inl e, w1) \<Rightarrow>
          (([(''prompt'', Some (prompt request)),
             (''camera_angle'', Some ''eye-level''),
             (''fov'', Some ''standard''),
             (''lighting'', Some ''studio''),
             (''color_palette'', Some ''vibrant''),
             (''composition'', Some ''rule-of-thirds''),
             (''style'', Some ''photorealistic'')],
            [(''note'', ''Using optimized defaults (AI unavailable)'')]), w1))"

definition ai_args :: "GenerationRequest \<Rightarrow> pdict \<Rightarrow> gen_args" where
  "ai_args request params =
     \<lparr>a_prompt = dict_get_default params ''prompt'' (Some (prompt request)),
      a_camera_angle = dict_get params ''camera_angle'',
      a_fov = dict_get params ''fov'',
      a_lighting = dict_get params ''lighting'',
      a_color_palette = dict_get params ''color_palette'',
      a_composition = dict_get params ''composition'',
      a_style = dict_get params ''style''\<rparr>"

definition manual_args :: "GenerationRequest \<Rightarrow> gen_args" where
  "manual_args request =
     \<lparr>a_prompt = Some (prompt request),
      a_camera_angle = camera_angle request,
      a_fov = fov request,
      a_lighting = lighting request,
      a_color_palette = color_palette request,
      a_composition = composition request,
      a_style = style request\<rparr>"

text \<open>The mode branch with its retry loop; the value is
  \<open>(retry_count, result, reasoning)\<close>.\<close>

definition generate_attempts ::
  "env \<Rightarrow> GenerationRequest \<Rightarrow> world \<Rightarrow>
     (exn + nat \<times> fibo_result option \<times> (string \<times> string) list option) \<times> world" where
  "generate_attempts E request w =
     (if mode request = ''ai'' then
        (case resolve_ai E request w of
           ((params, reasoning'), w1) \<Rightarrow>
             (case retry_loop E (ai_args request params) (max_retries request)
                     [0 ..< max_retries request + 1] (0, None, None) w1 of
                (Inl e, w2) \<Rightarrow> (Inl e, w2)
              | (Inr (rc, last_error, result), w2) \<Rightarrow> (Inr (rc, result, Some reasoning'), w2)))
      else
        (case retry_loop E (manual_args request) (max_retries request)
                [0 ..< max_retries request + 1] (0, None, None) w of
           (Inl e, w2) \<Rightarrow> (Inl e, w2)
         | (Inr (rc, last_error, result), w2) \<Rightarrow> (Inr (rc, result, None), w2)))"

text \<open>The message of the \<open>AttributeError\<close> raised by \<open>None.get\<close>.\<close>

definition NoneType_has_no_get :: string where
  "NoneType_has_no_get =
     CHR 0x27 # ''NoneType'' @ CHR 0x27 # '' object has no attribute '' @ CHR 0x27 # ''get'' @ [CHR 0x27]"

text \<open>From \<open>end_time = datetime.utcnow()\<close> to the \<open>return\<close>. A \<open>result\<close> that is still
  \<open>None\<close> makes \<open>result.get\<close> raise.\<close>

definition complete_generation ::
  "GenerationRequest \<Rightarrow> string \<Rightarrow> int \<Rightarrow> Generation \<Rightarrow>
     nat \<times> fibo_result option \<times> (string \<times> string) list option \<Rightarrow> world \<Rightarrow>
     (exn + GenerationResponse) \<times> world" where
  "complete_generation request cache_key start_time generation x w =
     (case x of (rc, result, reasoning') \<Rightarrow>
        let end_time = clock w;
            generation_time' = of_int (end_time - start_time) / 1000000
        in case result of
             None \<Rightarrow> (Inl (PyException NoneType_has_no_get), w)
           | Some r \<Rightarrow>
               let quality_score' = calculate_quality_score (res_parameters r) r;
                   w1 = db_commit (generation\<lparr>g_status := ''completed'',
                          g_result_url := res_image_url r,
                          g_parameters := Some (res_parameters r),
                          g_generation_time := Some generation_time',
                          g_quality_score := Some quality_score',
                          g_completed_at := Some end_time\<rparr>) w;
                   response_data = \<lparr>rid = g_id generation, status = ''completed'',
                          image_url = res_image_url r, parameters = res_parameters r,
                          quality_score = Some quality_score',
                          generation_time = Some generation_time',
                          reasoning = reasoning', retry_count = rc\<rparr>;
                   w2 = (if use_cache request
                         then w1\<lparr>generation_cache :=
                                cache_result cache_key response_data (clock w1) (generation_cache w1)\<rparr>
                         else w1)
               in (Inr (GenerationResponse response_data False), w2))"

text \<open>The cache lookup at the head of the handler.\<close>

definition cache_lookup :: "GenerationRequest \<Rightarrow> string \<Rightarrow> world \<Rightarrow> response_data option \<times> world" where
  "cache_lookup request cache_key w =
     (if use_cache request then
        (case get_cached_result cache_key (clock w) (generation_cache w) of
           (c, gc) \<Rightarrow> (c, w\<lparr>generation_cache := gc\<rparr>))
      else (None, w))"

text \<open>The \<open>except Exception as e\<close> branch of the handler, once \<open>generation\<close> exists.\<close>

definition handle_exception ::
  "env \<Rightarrow> Generation \<Rightarrow> exn \<Rightarrow> world \<Rightarrow> (exn + GenerationResponse) \<times> world" where
  "handle_exception E generation e w =
     (Inl (HTTPException 500 (''Generation failed: '' @ str_exn E e)),
      db_commit (generation\<lparr>g_status := ''failed'',
                   g_error_message := Some (str_exn E e)\<rparr>) w)"

text \<open>The handler. A cached payload is a dictionary of eight entries and so always true
  in \<open>if cached_result\<close>. In the \<open>except\<close> branch \<open>generation\<close> is always bound, since no
  step before its creation raises here.\<close>

definition generate_image ::
  "env \<Rightarrow> GenerationRequest \<Rightarrow> world \<Rightarrow> (exn + GenerationResponse) \<times> world" where
  "generate_image E request w =
     (let start_time = clock w;
          cache_key = generate_cache_key E request
      in case cache_lookup request cache_key w of
           (Some cached_result, w0) \<Rightarrow> (Inr (GenerationResponse cached_result True), w0)
         | (None, w0) \<Rightarrow>
             (case db_add request ''processing'' w0 of
                (generation, w1) \<Rightarrow>
                  (case (case generate_attempts E request w1 of
                           (Inl e, w2) \<Rightarrow> (Inl e, w2)
                         | (Inr x, w2) \<Rightarrow>
                             complete_generation request cache_key start_time generation x w2) of
                     (Inr response, w3) \<Rightarrow> (Inr response, w3)
                   | (Inl e, w3) \<Rightarrow> handle_exception E generation e w3)))"

subsection \<open>The batch handler\<close>

record BatchGenerationRequest =
  requests :: "GenerationRequest list"
  parallel :: bool
  continue_on_error :: bool

record BatchGenerationResponse =
  total :: nat
  successful :: nat
  failed :: nat
  results :: "GenerationResponse option list"
  errors :: "string option list"

text \<open>The four local variables \<open>results\<close>, \<open>errors\<close>, \<open>successful\<close>, \<open>failed\<close>.\<close>

record batch_state =
  b_results :: "GenerationResponse option list"
  b_errors :: "string option list"
  b_successful :: nat
  b_failed :: nat

definition record_success :: "GenerationResponse \<Rightarrow> batch_state \<Rightarrow> batch_state" where
  "record_success result st =
     st\<lparr>b_successful := b_successful st + 1,
        b_results := b_results st @ [Some result],
        b_errors := b_errors st @ [None]\<rparr>"

definition record_failure :: "string option \<Rightarrow> batch_state \<Rightarrow> batch_state" where
  "record_failure error st =
     st\<lparr>b_failed := b_failed st + 1,
        b_results := b_results st @ [None],
        b_errors := b_errors st @ [error]\<rparr>"

definition error_msg :: "env \<Rightarrow> nat \<Rightarrow> exn \<Rightarrow> string" where
  "error_msg E index e = ''Generation '' @ str_nat (index + 1) @ '' failed: '' @ str_exn E e"

type_synonym task_result = "exn + nat \<times> GenerationResponse option \<times> string option"

definition process_single_generation ::
  "env \<Rightarrow> BatchGenerationRequest \<Rightarrow> GenerationRequest \<Rightarrow> nat \<Rightarrow> world \<Rightarrow> task_result \<times> world" where
  "process_single_generation E request gen_request index w =
     (case generate_image E gen_request w of
        (Inr result, w1) \<Rightarrow> (Inr (index, Some result, None), w1)
      | (Inl e, w1) \<Rightarrow>
          if \<not> continue_on_error request then (Inl e, w1)
          else (Inr (index, None, Some (error_msg E index e)), w1))"

text \<open>
  \<open>asyncio.gather(*tasks, return_exceptions=True)\<close>: every task runs to its end, an
  exception it raises becomes its value, and the values come back in the order of the
  tasks. The tasks are run here one after the other in that order, which is one of the
  schedules of the event loop.
\<close>

fun gather :: "(world \<Rightarrow> task_result \<times> world) list \<Rightarrow> world \<Rightarrow> task_result list \<times> world" where
  "gather [] w = ([], w)"
| "gather (t # ts) w =
     (case t w of (r, w1) \<Rightarrow> (case gather ts w1 of (rs, w2) \<Rightarrow> (r # rs, w2)))"

text \<open>Python's \<open>enumerate(xs)\<close> is \<open>List.enumerate 0 xs\<close>.\<close>

text \<open>The loop \<open>for item in completed\<close>. A \<open>GenerationResponse\<close> object is always true in
  \<open>if result\<close>.\<close>

fun process_completed :: "env \<Rightarrow> task_result list \<Rightarrow> batch_state \<Rightarrow> batch_state" where
  "process_completed E [] st = st"
| "process_completed E (item # rest) st =
     process_completed E rest
       (case item of
          Inl e \<Rightarrow> record_failure (Some (str_exn E e)) st
        | Inr (index, result, error) \<Rightarrow>
            (case result of
               Some r \<Rightarrow> record_success r st
             | None \<Rightarrow> record_failure error st))"

text \<open>The loop \<open>for i, gen_request in enumerate(request.requests)\<close> of the sequential
  branch.\<close>

fun sequential_loop ::
  "env \<Rightarrow> BatchGenerationRequest \<Rightarrow> (nat \<times> GenerationRequest) list \<Rightarrow> batch_state \<Rightarrow> world \<Rightarrow>
     (exn + batch_state) \<times> world" where
  "sequential_loop E request [] st w = (Inr st, w)"
| "sequential_loop E request ((i, gen_request) # rest) st w =
     (case generate_image E gen_request w of
        (Inr result, w1) \<Rightarrow> sequential_loop E request rest (record_success result st) w1
      | (Inl e, w1) \<Rightarrow>
          if \<not> continue_on_error request then (Inl (HTTPException 500 (error_msg E i e)), w1)
          else sequential_loop E request rest (record_failure (Some (error_msg E i e)) st) w1)"

definition batch_generate_images ::
  "env \<Rightarrow> BatchGenerationRequest \<Rightarrow> world \<Rightarrow> (exn + BatchGenerationResponse) \<times> world" where
  "batch_generate_images E request w =
     (let st0 = \<lparr>b_results = [], b_errors = [], b_successful = 0, b_failed = 0\<rparr>
      in case (if parallel request then
                 (case gather (map (\<lambda>(i, gen_request). process_single_generation E request gen_request i)
                                (List.enumerate 0 (requests request))) w of
                    (completed, w1) \<Rightarrow> (Inr (process_completed E completed st0), w1))
               else sequential_loop E request (List.enumerate 0 (requests request)) st0 w) of
           (Inr st, w1) \<Rightarrow>
             (Inr \<lparr>total = length (requests request), successful = b_successful st,
                   failed = b_failed st, results = b_results st, errors = b_errors st\<rparr>, w1)
         | (Inl e, w1) \<Rightarrow>
             (Inl (HTTPException 500 (''Batch generation failed: '' @ str_exn E e)), w1))"

subsection \<open>Request validation\<close>

text \<open>
  The constraints the request models declare (\<open>Field\<close> bounds and \<open>@validator\<close> methods).
  The framework checks them before it calls a handler and answers a request that violates
  one with a validation error (status 422). \<open>max_retries\<close> is a natural number, so its
  lower bound 0 holds by type. A validator of an optional field lets \<open>None\<close> and the empty
  string through (\<open>if v and v not in [...]\<close>).
\<close>

definition optional_in :: "string option \<Rightarrow> string list \<Rightarrow> bool" where
  "optional_in v allowed = (case v of None \<Rightarrow> True | Some s \<Rightarrow> \<not> (s \<noteq> [] \<and> s \<notin> set allowed))"

definition GenerationRequest_valid :: "GenerationRequest \<Rightarrow> bool" where
  "GenerationRequest_valid r \<longleftrightarrow>
     3 \<le> length (prompt r) \<and> length (prompt r) \<le> 2000
     \<and> mode r \<in> set [''ai'', ''manual'']
     \<and> optional_in (camera_angle r)
          [''eye-level'', ''low-angle'', ''high-angle'', ''dutch-tilt'',
           ''bird'' @ CHR 0x27 # ''s-eye'']
     \<and> optional_in (fov r) [''wide'', ''standard'', ''telephoto'']
     \<and> optional_in (lighting r)
          [''natural'', ''studio'', ''dramatic'', ''golden-hour'', ''soft'', ''hard'']
     \<and> optional_in (color_palette r)
          [''vibrant'', ''pastel'', ''monochrome'', ''warm'', ''cool'', ''neon'']
     \<and> optional_in (composition r) [''rule-of-thirds'', ''centered'', ''dynamic'', ''minimal'']
     \<and> optional_in (style r) [''photorealistic'', ''cinematic'', ''editorial'', ''commercial'']
     \<and> max_retries r \<le> 5"

definition BatchGenerationRequest_valid :: "BatchGenerationRequest \<Rightarrow> bool" where
  "BatchGenerationRequest_valid b \<longleftrightarrow>
     1 \<le> length (requests b) \<and> length (requests b) \<le> 50
     \<and> list_all GenerationRequest_valid (requests b)"

text \<open>The route \<open>POST /batch\<close>: validation of the body, then the handler.\<close>

definition post_batch ::
  "env \<Rightarrow> BatchGenerationRequest \<Rightarrow> world \<Rightarrow> (exn + BatchGenerationResponse) \<times> world" where
  "post_batch E body w =
     (if BatchGenerationRequest_valid body then batch_generate_images E body w
      else (Inl (RequestValidationError ''body''), w))"

section \<open>Sample inputs\<close>

definition payload_sample :: response_data where
  "payload_sample = \<lparr>rid = 1, status = ''completed'', image_url = Some ''http://img/1'',
     parameters = [(''prompt'', Some ''a red car'')], quality_score = Some (3 / 4),
     generation_time = Some 2, reasoning = None, retry_count = 0\<rparr>"


definition request_manual :: GenerationRequest where
  "request_manual = \<lparr>prompt = ''a red car'', mode = ''manual'', camera_angle = None,
     fov = Some ''wide'', lighting = None, color_palette = None, composition = None,
     style = None, project_id = None, user_id = 1, use_cache = True, max_retries = 3\<rparr>"

text \<open>An environment whose rendering service fails twice and then answers, and whose
  agent is unavailable.\<close>

definition env_flaky :: env where
  "env_flaky = \<lparr>md5_hexdigest = (\<lambda>s. s), json_string = (\<lambda>s. CHR 0x22 # s @ [CHR 0x22]),
     http_exception_str = (\<lambda>c d. str_nat c @ '': '' @ d),
     analyze_intent = (\<lambda>n. Inl (PyException ''quota exceeded'')),
     fibo_api = (\<lambda>n. if n < 2 then Inl (PyException ''FIBO API error: 503'')
                     else Inr (Some ''http://img/1''))\<rparr>"

text \<open>An environment whose rendering service always fails.\<close>

definition env_down :: env where
  "env_down = env_flaky\<lparr>fibo_api := (\<lambda>n. Inl (PyException ''FIBO API error: 503''))\<rparr>"

definition world_init :: world where
  "world_init = \<lparr>generation_cache = Map.empty, db = [], clock = 0, agent_calls = 0,
     upstream_calls = 0, trace = []\<rparr>"

text \<open>A world in which the answer to \<open>request_manual\<close> was cached five microseconds ago.\<close>

definition world_cached :: world where
  "world_cached = world_init\<lparr>generation_cache :=
       [generate_cache_key env_flaky request_manual \<mapsto> \<lparr>data = payload_sample, timestamp = 0\<rparr>],
     clock := 5\<rparr>"




section \<open>Notions used to state the properties\<close>

text \<open>The events that write to the table of generation records.\<close>

fun is_db_event :: "event \<Rightarrow> bool" where
  "is_db_event (DbAdd i s) = True"
| "is_db_event (DbCommit i s) = True"
| "is_db_event ev = False"

text \<open>\<open>backoff_trace a k\<close>: \<open>k\<close> failed calls of the rendering service, the first of
  them being attempt \<open>a\<close>, each followed by its sleep of \<open>2 ^ attempt\<close> seconds.\<close>

fun backoff_trace :: "nat \<Rightarrow> nat \<Rightarrow> event list" where
  "backoff_trace a 0 = []"
| "backoff_trace a (Suc k) = Generate # Sleep (2 ^ a) # backoff_trace (Suc a) k"

text \<open>\<open>calls_only w w'\<close>: between the two worlds neither the table nor the cache was
  written.\<close>

definition calls_only :: "world \<Rightarrow> world \<Rightarrow> bool" where
  "calls_only w w' \<longleftrightarrow>
     db w' = db w \<and> generation_cache w' = generation_cache w \<and>
     (\<exists>evs. trace w' = trace w @ evs \<and> (\<forall>ev \<in> set evs. \<not> is_db_event ev))"


text \<open>The arguments of the call to the rendering service and the events that precede the
  first call, by mode.\<close>

definition mode_args :: "env \<Rightarrow> GenerationRequest \<Rightarrow> world \<Rightarrow> gen_args" where
  "mode_args E r w =
     (if mode r = ''ai'' then ai_args r (fst (fst (resolve_ai E r w))) else manual_args r)"

definition mode_trace :: "GenerationRequest \<Rightarrow> event list" where
  "mode_trace r = (if mode r = ''ai'' then [AnalyzeIntent] else [])"




text \<open>\<open>cache_completed c\<close>: every payload held by the cache is that of a completed
  generation, with its quality score.\<close>

definition cache_completed :: "cache \<Rightarrow> bool" where
  "cache_completed c \<longleftrightarrow>
     (\<forall>k e. c k = Some e \<longrightarrow> status (data e) = ''completed'' \<and> quality_score (data e) \<noteq> None)"

text \<open>
  \<open>run_all E rs w\<close>: the single-request handler applied to the requests \<open>rs\<close> one after
  the other, each in the world left by the one before it, whatever the outcomes; the
  outcomes in the order of the requests, and the final world.
\<close>

fun run_all ::
  "env \<Rightarrow> GenerationRequest list \<Rightarrow> world \<Rightarrow> (exn + GenerationResponse) list \<times> world" where
  "run_all E [] w = ([], w)"
| "run_all E (r # rs) w =
     (fst (generate_image E r w) # fst (run_all E rs (snd (generate_image E r w))),
      snd (run_all E rs (snd (generate_image E r w))))"

text \<open>What the batch response holds at the position of an outcome in parallel mode: the
  result, or the error text (the text depends on \<open>continue_on_error\<close>, which decides whether
  the task returns the message or raises).\<close>

definition outcome_result :: "exn + GenerationResponse \<Rightarrow> GenerationResponse option" where
  "outcome_result out = (case out of Inr result \<Rightarrow> Some result | Inl e \<Rightarrow> None)"

definition parallel_error ::
  "env \<Rightarrow> BatchGenerationRequest \<Rightarrow> nat \<Rightarrow> exn + GenerationResponse \<Rightarrow> string option" where
  "parallel_error E b i out =
     (case out of
        Inr result \<Rightarrow> None
      | Inl e \<Rightarrow> Some (if continue_on_error b then error_msg E i e else str_exn E e))"

definition succeeded :: "exn + GenerationResponse \<Rightarrow> bool" where
  "succeeded out = (case out of Inr result \<Rightarrow> True | Inl e \<Rightarrow> False)"

text \<open>The value \<open>process_single_generation\<close> gives for an outcome of the handler.\<close>

definition task_value ::
  "env \<Rightarrow> BatchGenerationRequest \<Rightarrow> nat \<Rightarrow> exn + GenerationResponse \<Rightarrow> task_result" where
  "task_value E b i out =
     (case out of
        Inr result \<Rightarrow> Inr (i, Some result, None)
      | Inl e \<Rightarrow> if \<not> continue_on_error b then Inl e else Inr (i, None, Some (error_msg E i e)))"


text \<open>
  The worlds the service can be in: it starts with an empty cache; a single request, a
  batch request, a clearing of the cache (\<open>DELETE /cache\<close>, which empties the dictionary)
  and the passing of time lead from one world to the next.
\<close>

inductive reachable :: "env \<Rightarrow> world \<Rightarrow> bool" for E :: env where
  start: "generation_cache w = Map.empty \<Longrightarrow> reachable E w"
| single: "reachable E w \<Longrightarrow> reachable E (snd (generate_image E r w))"
| batch: "reachable E w \<Longrightarrow> reachable E (snd (batch_generate_images E b w))"
| clear: "reachable E w \<Longrightarrow> reachable E (w\<lparr>generation_cache := Map.empty\<rparr>)"
| tick: "reachable E w \<Longrightarrow> reachable E (w\<lparr>clock := t\<rparr>)"


section \<open>Properties\<close>

subsection \<open>Result cache\<close>

text \<open>
  C3. After \<open>cache_result\<close> at time \<open>T\<close>, \<open>get_cached_result\<close> of the same key at time
  \<open>T + \<Delta>\<close> returns the stored payload and leaves the cache as it is when
  \<open>\<Delta> < CACHE_TTL\<close>; when \<open>\<Delta> \<ge> CACHE_TTL\<close> it returns nothing and the cache differs
  only by the removal of that key. A key that is not in the cache yields nothing and the
  cache is unchanged.
\<close>

theorem cache_ttl:
  "get_cached_result k (T + \<Delta>) (cache_result k d T c) =
     (if \<Delta> < CACHE_TTL then (Some d, cache_result k d T c)
      else (None, (cache_result k d T c)(k := None)))
   \<and> (c k = None \<longrightarrow> get_cached_result k now c = (None, c))"
  by (simp add: get_cached_result_def cache_result_def)

theorem cache_ttl_witness:
  "(Map.empty :: cache) ''k'' = None
   \<and> get_cached_result ''k'' 7 Map.empty = (None, Map.empty)
   \<and> fst (get_cached_result ''k'' (100 + 5) (cache_result ''k'' payload_sample 100 Map.empty))
       = Some payload_sample
   \<and> fst (get_cached_result ''k'' (100 + 3600000000)
            (cache_result ''k'' payload_sample 100 Map.empty)) = None"
  using cache_ttl [of "''k''" 100 5 payload_sample Map.empty 7]
        cache_ttl [of "''k''" 100 3600000000 payload_sample Map.empty 7]
  by (simp add: CACHE_TTL_def)

subsection \<open>Quality score\<close>




subsection \<open>Fingerprint\<close>

lemma key_data_distinct: "distinct (map fst (key_data r))"
  by (simp add: key_data_def)

lemma sort_key_permuted:
  assumes "mset d = mset d'" and "distinct (map fst d')"
  shows "sort_key fst d = sort_key fst d'"
proof (rule sort_key_inj_key_eq)
  show "mset d = mset (sort_key fst d')" using assms(1) by simp
  have "set d = set d'" using assms(1) by (rule mset_eq_setD)
  then show "inj_on fst (set d)" using assms(2) by (simp add: distinct_map)
  show "sorted (map fst (sort_key fst d'))" by simp
qed

text \<open>
  C5. Two requests that agree on the prompt, the mode and the six optional parameters
  have the same cache key, whatever their \<open>use_cache\<close>, \<open>max_retries\<close>, \<open>user_id\<close> and
  \<open>project_id\<close>; and the key does not depend on the order in which the eight items are
  inserted into the dictionary that is serialised: any permutation of them gives the same
  key.
\<close>

theorem fingerprint_deterministic:
  assumes "prompt r1 = prompt r2" and "mode r1 = mode r2"
    and "camera_angle r1 = camera_angle r2" and "fov r1 = fov r2"
    and "lighting r1 = lighting r2" and "color_palette r1 = color_palette r2"
    and "composition r1 = composition r2" and "style r1 = style r2"
    and "mset d1 = mset (key_data r1)" and "mset d2 = mset (key_data r2)"
  shows "generate_cache_key E r1 = generate_cache_key E r2
    \<and> md5_hexdigest E (json_dumps_sorted E d1) = generate_cache_key E r1
    \<and> md5_hexdigest E (json_dumps_sorted E d2) = generate_cache_key E r1"
proof -
  have kd: "key_data r1 = key_data r2"
    using assms(1-8) by (simp add: key_data_def)
  have s1: "sort_key fst d1 = sort_key fst (key_data r1)"
    using assms(9) key_data_distinct by (rule sort_key_permuted)
  have s2: "sort_key fst d2 = sort_key fst (key_data r1)"
    using assms(10) key_data_distinct unfolding kd [symmetric] by (rule sort_key_permuted)
  show ?thesis
    by (simp add: generate_cache_key_def json_dumps_sorted_def s1 s2 kd)
qed

theorem fingerprint_deterministic_witness:
  "generate_cache_key env_flaky request_manual =
     generate_cache_key env_flaky
       (request_manual\<lparr>use_cache := False, max_retries := 0, user_id := 7, project_id := Some 3\<rparr>)
   \<and> md5_hexdigest env_flaky (json_dumps_sorted env_flaky (rev (key_data request_manual))) =
       generate_cache_key env_flaky request_manual"
  using fingerprint_deterministic [of request_manual
      "request_manual\<lparr>use_cache := False, max_retries := 0, user_id := 7, project_id := Some 3\<rparr>"
      "rev (key_data request_manual)" "key_data request_manual" env_flaky]
  by (simp add: key_data_def)

subsection \<open>The retry loop\<close>

lemma calls_only_refl: "calls_only w w"
  by (simp add: calls_only_def)

lemma calls_only_trans: "calls_only w w1 \<Longrightarrow> calls_only w1 w2 \<Longrightarrow> calls_only w w2"
  by (auto simp: calls_only_def)

lemma fibo_generate_calls_only: "calls_only w (snd (fibo_generate E a w))"
  by (auto simp: calls_only_def fibo_generate_def emit_def Let_def split: sum.splits)

lemma sleep_calls_only: "calls_only w (sleep n w)"
  by (simp add: calls_only_def sleep_def emit_def)

lemma agent_analyze_calls_only: "calls_only w (snd (agent_analyze E w))"
  by (auto simp: calls_only_def agent_analyze_def emit_def Let_def split: sum.splits prod.splits)

lemma retry_loop_calls_only: "calls_only w (snd (retry_loop E a mr as st w))"
proof (induction E a mr as st w rule: retry_loop.induct)
  case (1 E a mr st w)
  show ?case by (simp add: calls_only_refl)
next
  case (2 E a mr attempt rest rc last_error result w)
  obtain r w1 where g: "fibo_generate E a w = (r, w1)" by (cases "fibo_generate E a w")
  have c1: "calls_only w w1" using fibo_generate_calls_only [of w E a] g by simp
  show ?case
  proof (cases r)
    case (Inr x)
    then show ?thesis using g c1 by simp
  next
    case (Inl e)
    show ?thesis
    proof (cases "attempt < mr")
      case True
      have "calls_only (sleep (2 ^ attempt) w1)
              (snd (retry_loop E a mr rest (attempt + 1, Some e, result) (sleep (2 ^ attempt) w1)))"
        using "2.IH" [OF g [symmetric] Inl True] .
      then have "calls_only w
              (snd (retry_loop E a mr rest (attempt + 1, Some e, result) (sleep (2 ^ attempt) w1)))"
        using c1 sleep_calls_only calls_only_trans by blast
      then show ?thesis using g Inl True by simp
    next
      case False
      then show ?thesis using g Inl c1 by simp
    qed
  qed
qed

lemma fibo_generate_fail:
  "fibo_api E (upstream_calls w) = Inl e \<Longrightarrow>
   fibo_generate E a w = (Inl e, emit Generate (w\<lparr>upstream_calls := Suc (upstream_calls w)\<rparr>))"
  by (simp add: fibo_generate_def)

lemma retry_loop_fail_then_succeed:
  assumes "\<forall>j<k. fibo_api E (upstream_calls w + j) = Inl (err j)"
    and "fibo_api E (upstream_calls w + k) = Inr url"
    and "a + k \<le> mr"
  shows "\<exists>w' le. retry_loop E args mr [a ..< Suc mr] (rc, le0, res0) w =
           (Inr (if k = 0 then rc else a + k, le, Some (fibo_success args url)), w')
         \<and> upstream_calls w' = upstream_calls w + k + 1
         \<and> trace w' = trace w @ backoff_trace a k @ [Generate]"
  using assms
proof (induction k arbitrary: a w rc le0 err)
  case 0
  have up: "[a ..< Suc mr] = a # [Suc a ..< Suc mr]"
    using 0(3) by (intro upt_conv_Cons) simp
  show ?case using 0(2)
    by (simp add: up fibo_generate_def emit_def del: upt_Suc)
next
  case (Suc k)
  have up: "[a ..< Suc mr] = a # [Suc a ..< Suc mr]"
    using Suc.prems(3) by (intro upt_conv_Cons) simp
  have lt: "a < mr" using Suc.prems(3) by simp
  have f0: "fibo_api E (upstream_calls w) = Inl (err 0)"
    using Suc.prems(1) by (metis add.right_neutral zero_less_Suc)
  let ?w1 = "emit Generate (w\<lparr>upstream_calls := Suc (upstream_calls w)\<rparr>)"
  let ?w2 = "sleep (2 ^ a) ?w1"
  have uc: "upstream_calls ?w2 = Suc (upstream_calls w)"
    by (simp add: sleep_def emit_def)
  have tr: "trace ?w2 = trace w @ [Generate, Sleep (2 ^ a)]"
    by (simp add: sleep_def emit_def)
  have p1: "\<forall>j<k. fibo_api E (upstream_calls ?w2 + j) = Inl (err (Suc j))"
    using Suc.prems(1) unfolding uc by (metis Suc_less_eq add_Suc_shift)
  have p2: "fibo_api E (upstream_calls ?w2 + k) = Inr url"
    using Suc.prems(2) unfolding uc by simp
  have p3: "Suc a + k \<le> mr" using Suc.prems(3) by simp
  obtain w' le where
    r: "retry_loop E args mr [Suc a ..< Suc mr] (a + 1, Some (err 0), res0) ?w2 =
          (Inr (if k = 0 then a + 1 else Suc a + k, le, Some (fibo_success args url)), w')"
    and u: "upstream_calls w' = upstream_calls ?w2 + k + 1"
    and t: "trace w' = trace ?w2 @ backoff_trace (Suc a) k @ [Generate]"
    using Suc.IH [OF p1 p2 p3, of "a + 1" "Some (err 0)"] by blast
  have "retry_loop E args mr [a ..< Suc mr] (rc, le0, res0) w =
          (Inr (a + Suc k, le, Some (fibo_success args url)), w')"
    using r lt by (simp add: up fibo_generate_fail [OF f0] del: upt_Suc)
  then show ?case using u t uc tr by simp
qed

lemma retry_loop_always_fails:
  assumes "\<forall>j\<le>k. fibo_api E (upstream_calls w + j) = Inl (err j)"
    and "a + k = mr"
  shows "\<exists>w'. retry_loop E args mr [a ..< Suc mr] (rc, le0, res0) w = (Inl (err k), w')
         \<and> upstream_calls w' = upstream_calls w + k + 1
         \<and> trace w' = trace w @ backoff_trace a k @ [Generate]"
  using assms
proof (induction k arbitrary: a w rc le0 err)
  case 0
  have up: "[a ..< Suc mr] = a # [Suc a ..< Suc mr]"
    using 0(2) by (intro upt_conv_Cons) simp
  have f0: "fibo_api E (upstream_calls w) = Inl (err 0)" using 0(1) by simp
  have am: "a = mr" using 0(2) by simp
  show ?case unfolding am
    by (simp add: fibo_generate_fail [OF f0] emit_def)
next
  case (Suc k)
  have up: "[a ..< Suc mr] = a # [Suc a ..< Suc mr]"
    using Suc.prems(2) by (intro upt_conv_Cons) simp
  have lt: "a < mr" using Suc.prems(2) by simp
  have f0: "fibo_api E (upstream_calls w) = Inl (err 0)"
    using Suc.prems(1) by (metis add.right_neutral le0)
  let ?w1 = "emit Generate (w\<lparr>upstream_calls := Suc (upstream_calls w)\<rparr>)"
  let ?w2 = "sleep (2 ^ a) ?w1"
  have uc: "upstream_calls ?w2 = Suc (upstream_calls w)"
    by (simp add: sleep_def emit_def)
  have tr: "trace ?w2 = trace w @ [Generate, Sleep (2 ^ a)]"
    by (simp add: sleep_def emit_def)
  have p1: "\<forall>j\<le>k. fibo_api E (upstream_calls ?w2 + j) = Inl (err (Suc j))"
    using Suc.prems(1) unfolding uc by (metis Suc_le_mono add_Suc_shift)
  have p3: "Suc a + k = mr" using Suc.prems(2) by simp
  obtain w' where
    r: "retry_loop E args mr [Suc a ..< Suc mr] (a + 1, Some (err 0), res0) ?w2 =
          (Inl (err (Suc k)), w')"
    and u: "upstream_calls w' = upstream_calls ?w2 + k + 1"
    and t: "trace w' = trace ?w2 @ backoff_trace (Suc a) k @ [Generate]"
    using Suc.IH [OF p1 p3, of "a + 1" "Some (err 0)"] by blast
  have "retry_loop E args mr [a ..< Suc mr] (rc, le0, res0) w = (Inl (err (Suc k)), w')"
    using r lt by (simp add: up fibo_generate_fail [OF f0] del: upt_Suc)
  then show ?case using u t uc tr by simp
qed

subsection \<open>Effects of the steps of the handler\<close>

lemma db_commit_fields [simp]:
  "trace (db_commit g w) = trace w @ [DbCommit (g_id g) (g_status g)]"
  "db (db_commit g w) = (db w)[g_id g - 1 := g]"
  "generation_cache (db_commit g w) = generation_cache w"
  "upstream_calls (db_commit g w) = upstream_calls w"
  "agent_calls (db_commit g w) = agent_calls w"
  "clock (db_commit g w) = clock w"
  by (simp_all add: db_commit_def emit_def)

lemma db_add_fields [simp]:
  "g_id (fst (db_add r st w)) = Suc (length (db w))"
  "g_status (fst (db_add r st w)) = st"
  "g_error_message (fst (db_add r st w)) = None"
  "g_result_url (fst (db_add r st w)) = None"
  "g_quality_score (fst (db_add r st w)) = None"
  "trace (snd (db_add r st w)) = trace w @ [DbAdd (Suc (length (db w))) st]"
  "db (snd (db_add r st w)) = db w @ [fst (db_add r st w)]"
  "generation_cache (snd (db_add r st w)) = generation_cache w"
  "upstream_calls (snd (db_add r st w)) = upstream_calls w"
  "agent_calls (snd (db_add r st w)) = agent_calls w"
  "clock (snd (db_add r st w)) = clock w"
  by (simp_all add: db_add_def emit_def Let_def)

lemma cache_lookup_fields [simp]:
  "trace (snd (cache_lookup r key w)) = trace w"
  "db (snd (cache_lookup r key w)) = db w"
  "upstream_calls (snd (cache_lookup r key w)) = upstream_calls w"
  "agent_calls (snd (cache_lookup r key w)) = agent_calls w"
  "clock (snd (cache_lookup r key w)) = clock w"
  by (simp_all add: cache_lookup_def get_cached_result_def split: option.splits)

lemma cache_lookup_cache:
  "generation_cache (snd (cache_lookup r key w)) k = Some e \<Longrightarrow> generation_cache w k = Some e"
  by (auto simp: cache_lookup_def get_cached_result_def split: option.splits if_splits)

lemma resolve_ai_fields [simp]:
  "trace (snd (resolve_ai E r w)) = trace w @ [AnalyzeIntent]"
  "db (snd (resolve_ai E r w)) = db w"
  "generation_cache (snd (resolve_ai E r w)) = generation_cache w"
  "upstream_calls (snd (resolve_ai E r w)) = upstream_calls w"
  by (simp_all add: resolve_ai_def agent_analyze_def emit_def Let_def split: sum.splits prod.splits)

lemma resolve_ai_calls_only: "calls_only w (snd (resolve_ai E r w))"
  by (simp add: calls_only_def)

lemma generate_attempts_calls_only: "calls_only w (snd (generate_attempts E r w))"
proof (cases "mode r = ''ai''")
  case True
  obtain params rs w1 where ra: "resolve_ai E r w = ((params, rs), w1)"
    by (metis surj_pair)
  have c1: "calls_only w w1" using resolve_ai_calls_only [of w E r] ra by simp
  have c2: "calls_only w1 (snd (retry_loop E (ai_args r params) (max_retries r)
                [0 ..< max_retries r + 1] (0, None, None) w1))"
    by (rule retry_loop_calls_only)
  have "snd (generate_attempts E r w) = snd (retry_loop E (ai_args r params) (max_retries r)
                [0 ..< max_retries r + 1] (0, None, None) w1)"
    using True ra by (simp add: generate_attempts_def del: upt_Suc split: prod.splits sum.splits)
  then show ?thesis using c1 c2 calls_only_trans by metis
next
  case False
  have "snd (generate_attempts E r w) = snd (retry_loop E (manual_args r) (max_retries r)
                [0 ..< max_retries r + 1] (0, None, None) w)"
    using False by (simp add: generate_attempts_def del: upt_Suc split: prod.splits sum.splits)
  then show ?thesis using retry_loop_calls_only by metis
qed

lemma generate_attempts_fail_then_succeed:
  assumes "\<forall>j<k. fibo_api E (upstream_calls w + j) = Inl (err j)"
    and "fibo_api E (upstream_calls w + k) = Inr url"
    and "k \<le> max_retries r"
  shows "\<exists>w' rs. generate_attempts E r w =
            (Inr (k, Some (fibo_success (mode_args E r w) url), rs), w')
         \<and> upstream_calls w' = upstream_calls w + k + 1
         \<and> trace w' = trace w @ mode_trace r @ backoff_trace 0 k @ [Generate]"
proof (cases "mode r = ''ai''")
  case True
  obtain params rs w1 where ra: "resolve_ai E r w = ((params, rs), w1)"
    by (metis surj_pair)
  have u1: "upstream_calls w1 = upstream_calls w" and t1: "trace w1 = trace w @ [AnalyzeIntent]"
    using resolve_ai_fields [of E r w] ra by simp_all
  obtain w' le where
    rl: "retry_loop E (ai_args r params) (max_retries r) [0 ..< Suc (max_retries r)] (0, None, None) w1 =
          (Inr (if k = 0 then 0 else 0 + k, le, Some (fibo_success (ai_args r params) url)), w')"
    and u: "upstream_calls w' = upstream_calls w1 + k + 1"
    and t: "trace w' = trace w1 @ backoff_trace 0 k @ [Generate]"
    using retry_loop_fail_then_succeed [of k E w1 err url 0 "max_retries r" "ai_args r params" 0 None None]
      assms unfolding u1 by auto
  have "generate_attempts E r w =
          (Inr (k, Some (fibo_success (mode_args E r w) url), Some rs), w')"
    using True ra rl by (simp add: generate_attempts_def mode_args_def del: upt_Suc)
  then show ?thesis using u t u1 t1 True by (simp add: mode_trace_def)
next
  case False
  obtain w' le where
    rl: "retry_loop E (manual_args r) (max_retries r) [0 ..< Suc (max_retries r)] (0, None, None) w =
          (Inr (if k = 0 then 0 else 0 + k, le, Some (fibo_success (manual_args r) url)), w')"
    and u: "upstream_calls w' = upstream_calls w + k + 1"
    and t: "trace w' = trace w @ backoff_trace 0 k @ [Generate]"
    using retry_loop_fail_then_succeed [of k E w err url 0 "max_retries r" "manual_args r" 0 None None]
      assms by auto
  have "generate_attempts E r w =
          (Inr (k, Some (fibo_success (mode_args E r w) url), None), w')"
    using False rl by (simp add: generate_attempts_def mode_args_def del: upt_Suc)
  then show ?thesis using u t False by (simp add: mode_trace_def)
qed

lemma generate_attempts_always_fails:
  assumes "\<forall>j\<le>k. fibo_api E (upstream_calls w + j) = Inl (err j)"
    and "max_retries r = k"
  shows "\<exists>w'. generate_attempts E r w = (Inl (err k), w')
         \<and> upstream_calls w' = upstream_calls w + k + 1
         \<and> trace w' = trace w @ mode_trace r @ backoff_trace 0 k @ [Generate]"
proof (cases "mode r = ''ai''")
  case True
  obtain params rs w1 where ra: "resolve_ai E r w = ((params, rs), w1)"
    by (metis surj_pair)
  have u1: "upstream_calls w1 = upstream_calls w" and t1: "trace w1 = trace w @ [AnalyzeIntent]"
    using resolve_ai_fields [of E r w] ra by simp_all
  obtain w' where
    rl: "retry_loop E (ai_args r params) (max_retries r) [0 ..< Suc (max_retries r)] (0, None, None) w1 =
          (Inl (err k), w')"
    and u: "upstream_calls w' = upstream_calls w1 + k + 1"
    and t: "trace w' = trace w1 @ backoff_trace 0 k @ [Generate]"
    using retry_loop_always_fails [of k E w1 err 0 "max_retries r" "ai_args r params" 0 None None]
      assms unfolding u1 by auto
  have "generate_attempts E r w = (Inl (err k), w')"
    using True ra rl by (simp add: generate_attempts_def del: upt_Suc)
  then show ?thesis using u t u1 t1 True by (simp add: mode_trace_def)
next
  case False
  obtain w' where
    rl: "retry_loop E (manual_args r) (max_retries r) [0 ..< Suc (max_retries r)] (0, None, None) w =
          (Inl (err k), w')"
    and u: "upstream_calls w' = upstream_calls w + k + 1"
    and t: "trace w' = trace w @ backoff_trace 0 k @ [Generate]"
    using retry_loop_always_fails [of k E w err 0 "max_retries r" "manual_args r" 0 None None]
      assms by auto
  have "generate_attempts E r w = (Inl (err k), w')"
    using False rl by (simp add: generate_attempts_def del: upt_Suc)
  then show ?thesis using u t False by (simp add: mode_trace_def)
qed

subsection \<open>The single-request handler\<close>

lemma GenerationResponse_fields [simp]:
  "rid (GenerationResponse d c) = rid d"
  "status (GenerationResponse d c) = status d"
  "image_url (GenerationResponse d c) = image_url d"
  "parameters (GenerationResponse d c) = parameters d"
  "quality_score (GenerationResponse d c) = quality_score d"
  "generation_time (GenerationResponse d c) = generation_time d"
  "reasoning (GenerationResponse d c) = reasoning d"
  "retry_count (GenerationResponse d c) = retry_count d"
  "cached (GenerationResponse d c) = c"
  by (simp_all add: GenerationResponse_def response_data.defs)

lemma generate_image_unfold:
  assumes "cache_lookup r (generate_cache_key E r) w = (None, w0)"
    and "db_add r ''processing'' w0 = (g, w1)"
  shows "generate_attempts E r w1 = (Inl e, w2) \<Longrightarrow>
           generate_image E r w = handle_exception E g e w2"
    and "generate_attempts E r w1 = (Inr x, w2) \<Longrightarrow>
           complete_generation r (generate_cache_key E r) (clock w) g x w2 = (Inr resp, w3) \<Longrightarrow>
           generate_image E r w = (Inr resp, w3)"
    and "generate_attempts E r w1 = (Inr x, w2) \<Longrightarrow>
           complete_generation r (generate_cache_key E r) (clock w) g x w2 = (Inl e, w3) \<Longrightarrow>
           generate_image E r w = handle_exception E g e w3"
  using assms by (simp_all add: generate_image_def Let_def)

lemma cache_lookup_miss:
  assumes "fst (cache_lookup r key w) = None"
  obtains w0 where "cache_lookup r key w = (None, w0)"
    and "trace w0 = trace w" and "db w0 = db w" and "upstream_calls w0 = upstream_calls w"
    and "clock w0 = clock w"
    and "\<And>k e. generation_cache w0 k = Some e \<Longrightarrow> generation_cache w k = Some e"
proof -
  have "cache_lookup r key w = (None, snd (cache_lookup r key w))"
    using assms by (metis prod.collapse)
  then show ?thesis
    using that [of "snd (cache_lookup r key w)"] cache_lookup_cache [of r key w] by simp
qed

lemma db_add_obtain:
  obtains g w1 where "db_add r st w = (g, w1)"
    and "g_id g = Suc (length (db w))" and "g_status g = st" and "g_error_message g = None"
    and "g_result_url g = None" and "g_quality_score g = None"
    and "trace w1 = trace w @ [DbAdd (Suc (length (db w))) st]"
    and "db w1 = db w @ [g]" and "generation_cache w1 = generation_cache w"
    and "upstream_calls w1 = upstream_calls w" and "clock w1 = clock w"
proof -
  have "db_add r st w = (fst (db_add r st w), snd (db_add r st w))" by simp
  then show ?thesis
    using that [of "fst (db_add r st w)" "snd (db_add r st w)"] by simp
qed

text \<open>The response and the world of a completed generation.\<close>

lemma complete_generation_Some:
  "complete_generation r key t0 g (rc, Some res, rs) w =
     (Inr (GenerationResponse
        \<lparr>rid = g_id g, status = ''completed'', image_url = res_image_url res,
         parameters = res_parameters res,
         quality_score = Some (calculate_quality_score (res_parameters res) res),
         generation_time = Some (of_int (clock w - t0) / 1000000),
         reasoning = rs, retry_count = rc\<rparr> False),
      snd (complete_generation r key t0 g (rc, Some res, rs) w))"
  by (simp add: complete_generation_def Let_def)

lemma complete_generation_fields [simp]:
  "trace (snd (complete_generation r key t0 g (rc, Some res, rs) w)) =
     trace w @ [DbCommit (g_id g) ''completed'']"
  "upstream_calls (snd (complete_generation r key t0 g (rc, Some res, rs) w)) = upstream_calls w"
  by (simp_all add: complete_generation_def Let_def)

lemma generate_image_retry_success:
  assumes miss: "fst (cache_lookup r (generate_cache_key E r) w) = None"
    and fails: "\<forall>j<k. fibo_api E (upstream_calls w + j) = Inl (err j)"
    and ok: "fibo_api E (upstream_calls w + k) = Inr url"
    and le: "k \<le> max_retries r"
  shows "\<exists>resp w'. generate_image E r w = (Inr resp, w')
         \<and> retry_count resp = k \<and> status resp = ''completed'' \<and> image_url resp = url
         \<and> \<not> cached resp
         \<and> upstream_calls w' = upstream_calls w + k + 1
         \<and> trace w' = trace w @ DbAdd (Suc (length (db w))) ''processing'' # mode_trace r @
              backoff_trace 0 k @ [Generate, DbCommit (Suc (length (db w))) ''completed'']"
proof -
  let ?key = "generate_cache_key E r"
  obtain w0 where cl: "cache_lookup r ?key w = (None, w0)"
    and t0: "trace w0 = trace w" and d0: "db w0 = db w"
    and u0: "upstream_calls w0 = upstream_calls w"
    using miss by (rule cache_lookup_miss)
  obtain g w1 where da: "db_add r ''processing'' w0 = (g, w1)"
    and gid: "g_id g = Suc (length (db w0))"
    and t1: "trace w1 = trace w0 @ [DbAdd (Suc (length (db w0))) ''processing'']"
    and u1: "upstream_calls w1 = upstream_calls w0"
    by (rule db_add_obtain)
  obtain w2 rs where
    ga: "generate_attempts E r w1 = (Inr (k, Some (fibo_success (mode_args E r w1) url), rs), w2)"
    and u2: "upstream_calls w2 = upstream_calls w1 + k + 1"
    and t2: "trace w2 = trace w1 @ mode_trace r @ backoff_trace 0 k @ [Generate]"
    using generate_attempts_fail_then_succeed [of k E w1 err url r] fails ok le
    unfolding u1 u0 by blast
  let ?res = "fibo_success (mode_args E r w1) url"
  let ?resp = "GenerationResponse
        \<lparr>rid = g_id g, status = ''completed'', image_url = res_image_url ?res,
         parameters = res_parameters ?res,
         quality_score = Some (calculate_quality_score (res_parameters ?res) ?res),
         generation_time = Some (of_int (clock w2 - clock w) / 1000000),
         reasoning = rs, retry_count = k\<rparr> False"
  let ?w3 = "snd (complete_generation r ?key (clock w) g (k, Some ?res, rs) w2)"
  have cg: "complete_generation r ?key (clock w) g (k, Some ?res, rs) w2 = (Inr ?resp, ?w3)"
    by (rule complete_generation_Some)
  have gi: "generate_image E r w = (Inr ?resp, ?w3)"
    by (rule generate_image_unfold(2) [OF cl da ga cg])
  show ?thesis
    unfolding gi by (simp add: u2 u1 u0 t2 t1 t0 d0 gid fibo_success_def)
qed

lemma generate_image_retry_failure:
  assumes miss: "fst (cache_lookup r (generate_cache_key E r) w) = None"
    and fails: "\<forall>j\<le>k. fibo_api E (upstream_calls w + j) = Inl (err j)"
    and mr: "max_retries r = k"
  shows "\<exists>w'. generate_image E r w =
           (Inl (HTTPException 500 (''Generation failed: '' @ str_exn E (err k))), w')
         \<and> upstream_calls w' = upstream_calls w + k + 1
         \<and> trace w' = trace w @ DbAdd (Suc (length (db w))) ''processing'' # mode_trace r @
              backoff_trace 0 k @ [Generate, DbCommit (Suc (length (db w))) ''failed'']"
proof -
  let ?key = "generate_cache_key E r"
  obtain w0 where cl: "cache_lookup r ?key w = (None, w0)"
    and t0: "trace w0 = trace w" and d0: "db w0 = db w"
    and u0: "upstream_calls w0 = upstream_calls w"
    using miss by (rule cache_lookup_miss)
  obtain g w1 where da: "db_add r ''processing'' w0 = (g, w1)"
    and gid: "g_id g = Suc (length (db w0))"
    and t1: "trace w1 = trace w0 @ [DbAdd (Suc (length (db w0))) ''processing'']"
    and u1: "upstream_calls w1 = upstream_calls w0"
    by (rule db_add_obtain)
  obtain w2 where
    ga: "generate_attempts E r w1 = (Inl (err k), w2)"
    and u2: "upstream_calls w2 = upstream_calls w1 + k + 1"
    and t2: "trace w2 = trace w1 @ mode_trace r @ backoff_trace 0 k @ [Generate]"
    using generate_attempts_always_fails [of k E w1 err r] fails mr
    unfolding u1 u0 by blast
  have gi: "generate_image E r w = handle_exception E g (err k) w2"
    by (rule generate_image_unfold(1) [OF cl da ga])
  show ?thesis
    unfolding gi by (simp add: handle_exception_def u2 u1 u0 t2 t1 t0 d0 gid)
qed

text \<open>
  C1 (as the code has it). For a request that misses the cache: if the rendering service
  fails \<open>k\<close> times and then answers, and \<open>k \<le> max_retries\<close>, the request succeeds after
  exactly \<open>k + 1\<close> calls and the response reports \<open>retry_count = k\<close>, the number of failed
  attempts; if the service fails \<open>k + 1\<close> times and \<open>max_retries = k\<close>, the handler raises
  after exactly \<open>k + 1\<close> calls, the error of the last call being the one reported (inside
  the detail of the HTTP 500 error). In both cases failed attempt number \<open>a\<close> (from zero) is
  followed by a sleep of \<open>2 ^ a\<close> seconds before the next call, and the last call is not
  followed by a sleep.
\<close>

theorem retry_policy:
  assumes "fst (cache_lookup r (generate_cache_key E r) w) = None"
  shows "(k \<le> max_retries r \<and> (\<forall>j<k. fibo_api E (upstream_calls w + j) = Inl (err j))
           \<and> fibo_api E (upstream_calls w + k) = Inr url \<longrightarrow>
          (\<exists>resp w'. generate_image E r w = (Inr resp, w')
             \<and> retry_count resp = k \<and> status resp = ''completed'' \<and> image_url resp = url
             \<and> upstream_calls w' = upstream_calls w + k + 1
             \<and> trace w' = trace w @ DbAdd (Suc (length (db w))) ''processing'' # mode_trace r @
                  backoff_trace 0 k @ [Generate, DbCommit (Suc (length (db w))) ''completed'']))
       \<and> (max_retries r = k \<and> (\<forall>j\<le>k. fibo_api E (upstream_calls w + j) = Inl (err j)) \<longrightarrow>
          (\<exists>w'. generate_image E r w =
                   (Inl (HTTPException 500 (''Generation failed: '' @ str_exn E (err k))), w')
             \<and> upstream_calls w' = upstream_calls w + k + 1
             \<and> trace w' = trace w @ DbAdd (Suc (length (db w))) ''processing'' # mode_trace r @
                  backoff_trace 0 k @ [Generate, DbCommit (Suc (length (db w))) ''failed'']))"
proof (intro conjI impI)
  assume a: "k \<le> max_retries r \<and> (\<forall>j<k. fibo_api E (upstream_calls w + j) = Inl (err j))
           \<and> fibo_api E (upstream_calls w + k) = Inr url"
  show "\<exists>resp w'. generate_image E r w = (Inr resp, w')
             \<and> retry_count resp = k \<and> status resp = ''completed'' \<and> image_url resp = url
             \<and> upstream_calls w' = upstream_calls w + k + 1
             \<and> trace w' = trace w @ DbAdd (Suc (length (db w))) ''processing'' # mode_trace r @
                  backoff_trace 0 k @ [Generate, DbCommit (Suc (length (db w))) ''completed'']"
    using generate_image_retry_success [OF assms, of k err url] a by blast
next
  assume a: "max_retries r = k \<and> (\<forall>j\<le>k. fibo_api E (upstream_calls w + j) = Inl (err j))"
  show "\<exists>w'. generate_image E r w =
                   (Inl (HTTPException 500 (''Generation failed: '' @ str_exn E (err k))), w')
             \<and> upstream_calls w' = upstream_calls w + k + 1
             \<and> trace w' = trace w @ DbAdd (Suc (length (db w))) ''processing'' # mode_trace r @
                  backoff_trace 0 k @ [Generate, DbCommit (Suc (length (db w))) ''failed'']"
    using generate_image_retry_failure [OF assms, of k err] a by blast
qed

text \<open>Evaluation of the sample inputs.\<close>

lemma world_init_miss: "fst (cache_lookup r key world_init) = None"
  by (simp add: cache_lookup_def get_cached_result_def world_init_def)

lemma backoff_trace_2: "backoff_trace 0 2 = [Generate, Sleep 1, Generate, Sleep 2]"
  by (simp add: numeral_2_eq_2)

lemma backoff_trace_3:
  "backoff_trace 0 3 = [Generate, Sleep 1, Generate, Sleep 2, Generate, Sleep 4]"
  by (simp add: numeral_3_eq_3)

theorem retry_policy_witness:
  "(\<exists>resp w'. generate_image env_flaky request_manual world_init = (Inr resp, w')
      \<and> retry_count resp = 2 \<and> status resp = ''completed''
      \<and> upstream_calls w' = 3
      \<and> trace w' = [DbAdd 1 ''processing'', Generate, Sleep 1, Generate, Sleep 2, Generate,
                      DbCommit 1 ''completed''])
   \<and> (\<exists>w'. generate_image env_down request_manual world_init =
              (Inl (HTTPException 500 ''Generation failed: FIBO API error: 503''), w')
      \<and> upstream_calls w' = 4
      \<and> trace w' = [DbAdd 1 ''processing'', Generate, Sleep 1, Generate, Sleep 2, Generate,
                      Sleep 4, Generate, DbCommit 1 ''failed''])"
proof -
  let ?err = "\<lambda>j::nat. PyException ''FIBO API error: 503''"
  have h1: "2 \<le> max_retries request_manual
      \<and> (\<forall>j<2. fibo_api env_flaky (upstream_calls world_init + j) = Inl (?err j))
      \<and> fibo_api env_flaky (upstream_calls world_init + 2) = Inr (Some ''http://img/1'')"
    by (simp add: env_flaky_def request_manual_def world_init_def)
  have h2: "max_retries request_manual = 3
      \<and> (\<forall>j\<le>3. fibo_api env_down (upstream_calls world_init + j) = Inl (?err j))"
    by (simp add: env_down_def env_flaky_def request_manual_def world_init_def)
  have w: "upstream_calls world_init = 0" "trace world_init = []" "db world_init = []"
    "mode_trace request_manual = []"
    by (simp_all add: world_init_def mode_trace_def request_manual_def)
  have c1: "\<exists>resp w'. generate_image env_flaky request_manual world_init = (Inr resp, w')
      \<and> retry_count resp = 2 \<and> status resp = ''completed'' \<and> image_url resp = Some ''http://img/1''
      \<and> upstream_calls w' = upstream_calls world_init + 2 + 1
      \<and> trace w' = trace world_init @ DbAdd (Suc (length (db world_init))) ''processing'' #
            mode_trace request_manual @ backoff_trace 0 2 @
            [Generate, DbCommit (Suc (length (db world_init))) ''completed'']"
    using retry_policy [OF world_init_miss, where r = request_manual and E = env_flaky and k = 2
          and err = ?err and url = "Some ''http://img/1''"] h1 by blast
  have c2: "\<exists>w'. generate_image env_down request_manual world_init =
          (Inl (HTTPException 500 (''Generation failed: '' @ str_exn env_down (?err 3))), w')
      \<and> upstream_calls w' = upstream_calls world_init + 3 + 1
      \<and> trace w' = trace world_init @ DbAdd (Suc (length (db world_init))) ''processing'' #
            mode_trace request_manual @ backoff_trace 0 3 @
            [Generate, DbCommit (Suc (length (db world_init))) ''failed'']"
    using retry_policy [OF world_init_miss, where r = request_manual and E = env_down and k = 3
          and err = ?err and url = "Some ''http://img/1''"] h2 by blast
  show ?thesis
    using c1 c2 unfolding w backoff_trace_2 backoff_trace_3 by auto
qed

text \<open>
  C1 as stated fails: with a service that fails exactly twice and then answers, and
  \<open>max_retries = 3\<close>, the response reports \<open>retry_count = 2\<close>, not \<open>3\<close>.
\<close>

theorem retry_count_counterexample:
  "fibo_api env_flaky 0 = Inl (PyException ''FIBO API error: 503'')
   \<and> fibo_api env_flaky 1 = Inl (PyException ''FIBO API error: 503'')
   \<and> fibo_api env_flaky 2 = Inr (Some ''http://img/1'')
   \<and> 2 \<le> max_retries request_manual
   \<and> map_sum id retry_count (fst (generate_image env_flaky request_manual world_init)) = Inr 2
   \<and> map_sum id retry_count (fst (generate_image env_flaky request_manual world_init)) \<noteq> Inr (2 + 1)"
proof -
  have "\<forall>j<2. fibo_api env_flaky (upstream_calls world_init + j) =
          Inl ((\<lambda>j. PyException ''FIBO API error: 503'') j)"
    by (simp add: env_flaky_def world_init_def)
  moreover have "fibo_api env_flaky (upstream_calls world_init + 2) = Inr (Some ''http://img/1'')"
    by (simp add: env_flaky_def world_init_def)
  moreover have "2 \<le> max_retries request_manual" by (simp add: request_manual_def)
  ultimately obtain resp w' where
    "generate_image env_flaky request_manual world_init = (Inr resp, w')" "retry_count resp = 2"
    using generate_image_retry_success [OF world_init_miss, where k = 2 and E = env_flaky
        and err = "\<lambda>j. PyException ''FIBO API error: 503''" and url = "Some ''http://img/1''"
        and r = request_manual]
    by blast
  then show ?thesis by (simp add: env_flaky_def request_manual_def)
qed

text \<open>
  C9. For a request with \<open>use_cache\<close> whose key has an entry younger than \<open>CACHE_TTL\<close>,
  \<open>generate_image\<close> returns the cached payload with \<open>cached = True\<close> and the world is
  exactly the one before the call: no row was added to the table, neither the agent nor
  the rendering service was called, and the cache is unchanged.
\<close>

theorem cache_hit_frame:
  assumes "use_cache r"
    and "generation_cache w (generate_cache_key E r) = Some entry"
    and "clock w - timestamp entry < CACHE_TTL"
  shows "generate_image E r w = (Inr (GenerationResponse (data entry) True), w)"
  using assms
  by (simp add: generate_image_def cache_lookup_def get_cached_result_def Let_def)

theorem cache_hit_frame_witness:
  "use_cache request_manual
   \<and> generation_cache world_cached (generate_cache_key env_flaky request_manual) =
       Some \<lparr>data = payload_sample, timestamp = 0\<rparr>
   \<and> clock world_cached - timestamp \<lparr>data = payload_sample, timestamp = 0\<rparr> < CACHE_TTL
   \<and> generate_image env_flaky request_manual world_cached =
       (Inr (GenerationResponse payload_sample True), world_cached)"
  using cache_hit_frame [of request_manual world_cached env_flaky
          "\<lparr>data = payload_sample, timestamp = 0\<rparr>"]
  by (simp add: request_manual_def world_cached_def world_init_def CACHE_TTL_def)

subsection \<open>Record lifecycle\<close>


lemma complete_generation_None:
  "complete_generation r key t0 g (rc, None, rs) w = (Inl (PyException NoneType_has_no_get), w)"
  by (simp add: complete_generation_def Let_def)


lemma handle_exception_fields [simp]:
  "fst (handle_exception E g e w) = Inl (HTTPException 500 (''Generation failed: '' @ str_exn E e))"
  "trace (snd (handle_exception E g e w)) = trace w @ [DbCommit (g_id g) ''failed'']"
  "generation_cache (snd (handle_exception E g e w)) = generation_cache w"
  by (simp_all add: handle_exception_def)


lemma sample_run:
  "\<exists>resp w'. generate_image env_flaky request_manual world_init = (Inr resp, w')
     \<and> trace w' = [DbAdd 1 ''processing'', Generate, Sleep 1, Generate, Sleep 2, Generate,
                     DbCommit 1 ''completed'']"
proof -
  let ?err = "\<lambda>j::nat. PyException ''FIBO API error: 503''"
  have h: "\<forall>j<2. fibo_api env_flaky (upstream_calls world_init + j) = Inl (?err j)"
    "fibo_api env_flaky (upstream_calls world_init + 2) = Inr (Some ''http://img/1'')"
    "2 \<le> max_retries request_manual"
    by (simp_all add: env_flaky_def request_manual_def world_init_def)
  have w: "trace world_init = []" "db world_init = []" "mode_trace request_manual = []"
    by (simp_all add: world_init_def mode_trace_def request_manual_def)
  show ?thesis
    using generate_image_retry_success [OF world_init_miss h(1) h(2) h(3)]
    unfolding w backoff_trace_2 by auto
qed



subsection \<open>What the handler writes to the cache\<close>

lemma complete_generation_cache:
  assumes "generation_cache (snd (complete_generation r key t0 g (rc, Some res, rs) w)) k = Some e"
  shows "generation_cache w k = Some e
     \<or> (use_cache r \<and> k = key
        \<and> fst (complete_generation r key t0 g (rc, Some res, rs) w) =
             Inr (GenerationResponse (data e) False)
        \<and> status (data e) = ''completed'' \<and> quality_score (data e) \<noteq> None
        \<and> retry_count (data e) = rc)"
  using assms
  by (auto simp: complete_generation_def Let_def cache_result_def split: if_splits)

lemma generate_image_cache_step:
  assumes "generation_cache (snd (generate_image E r w)) k = Some e"
  shows "generation_cache w k = Some e
     \<or> (use_cache r \<and> k = generate_cache_key E r
        \<and> fst (generate_image E r w) = Inr (GenerationResponse (data e) False)
        \<and> status (data e) = ''completed'' \<and> quality_score (data e) \<noteq> None)"
proof -
  let ?key = "generate_cache_key E r"
  obtain c w0 where cl: "cache_lookup r ?key w = (c, w0)" by (metis surj_pair)
  have sub0: "generation_cache w0 k' = Some e' \<Longrightarrow> generation_cache w k' = Some e'" for k' e'
    using cache_lookup_cache [of r ?key w k' e'] cl by simp
  show ?thesis
  proof (cases c)
    case (Some d)
    have "generate_image E r w = (Inr (GenerationResponse d True), w0)"
      using cl Some by (simp add: generate_image_def Let_def)
    then show ?thesis using assms sub0 by simp
  next
    case None
    note cl = cl [unfolded None]
    obtain g w1 where da: "db_add r ''processing'' w0 = (g, w1)"
      and c1: "generation_cache w1 = generation_cache w0"
      by (rule db_add_obtain)
    obtain x w2 where ga: "generate_attempts E r w1 = (x, w2)" by (metis surj_pair)
    have "calls_only w1 w2" using generate_attempts_calls_only [of w1 E r] ga by simp
    then have c2: "generation_cache w2 = generation_cache w0"
      unfolding calls_only_def c1 by simp
    have failed: ?thesis if "generate_image E r w = handle_exception E g e' w2" for e'
      using assms sub0 unfolding that by (simp add: c2)
    show ?thesis
    proof (cases x)
      case (Inl e')
      then show ?thesis using generate_image_unfold(1) [OF cl da] ga failed by simp
    next
      case (Inr y)
      obtain rc result rs where y: "y = (rc, result, rs)" by (cases y)
      show ?thesis
      proof (cases result)
        case None
        have "generate_image E r w = handle_exception E g (PyException NoneType_has_no_get) w2"
          using generate_image_unfold(3) [OF cl da] ga Inr y None complete_generation_None by simp
        then show ?thesis by (rule failed)
      next
        case (Some res)
        let ?c = "complete_generation r ?key (clock w) g (rc, Some res, rs) w2"
        note cg = complete_generation_Some [of r ?key "clock w" g rc res rs w2]
        have gi: "generate_image E r w = ?c"
          using generate_image_unfold(2) [OF cl da] ga Inr y Some cg by simp
        show ?thesis
          using complete_generation_cache [of r ?key "clock w" g rc res rs w2 k e] assms sub0
          unfolding gi c2 by blast
      qed
    qed
  qed
qed

lemma generate_image_failure_cache:
  assumes "fst (generate_image E r w) = Inl x"
    and "generation_cache (snd (generate_image E r w)) k = Some e"
  shows "generation_cache w k = Some e"
  using generate_image_cache_step [OF assms(2)] assms(1) by auto

lemma generate_image_cache_completed:
  assumes "cache_completed (generation_cache w)"
  shows "cache_completed (generation_cache (snd (generate_image E r w)))"
  unfolding cache_completed_def
proof (intro allI impI)
  fix k e assume "generation_cache (snd (generate_image E r w)) k = Some e"
  from generate_image_cache_step [OF this] assms
  show "status (data e) = ''completed'' \<and> quality_score (data e) \<noteq> None"
    unfolding cache_completed_def by blast
qed

subsection \<open>The batch handler\<close>

lemma length_run_all [simp]: "length (fst (run_all E rs w)) = length rs"
  by (induction rs arbitrary: w) simp_all

lemma process_single_generation_eq:
  "process_single_generation E b q i w =
     (task_value E b i (fst (generate_image E q w)), snd (generate_image E q w))"
  by (simp add: process_single_generation_def task_value_def split: prod.splits sum.splits)

lemma gather_tasks:
  "gather (map (\<lambda>(i, q). process_single_generation E b q i) (List.enumerate n rs)) w =
     (map (\<lambda>(i, out). task_value E b i out) (List.enumerate n (fst (run_all E rs w))),
      snd (run_all E rs w))"
  by (induction rs arbitrary: n w) (simp_all add: process_single_generation_eq)

lemma task_value_step:
  "(case task_value E b i out of
      Inl e \<Rightarrow> record_failure (Some (str_exn E e)) st
    | Inr (index, result, error) \<Rightarrow>
        (case result of
           Some r \<Rightarrow> record_success r st
         | None \<Rightarrow> record_failure error st)) =
   st\<lparr>b_results := b_results st @ [outcome_result out],
      b_errors := b_errors st @ [parallel_error E b i out],
      b_successful := b_successful st + (if succeeded out then 1 else 0),
      b_failed := b_failed st + (if succeeded out then 0 else 1)\<rparr>"
  by (cases out)
     (simp_all add: task_value_def outcome_result_def parallel_error_def succeeded_def
        record_success_def record_failure_def)

lemma process_completed_tasks:
  "process_completed E (map (\<lambda>(i, out). task_value E b i out) (List.enumerate n outs)) st =
     st\<lparr>b_results := b_results st @ map outcome_result outs,
        b_errors := b_errors st @ map (\<lambda>(i, out). parallel_error E b i out) (List.enumerate n outs),
        b_successful := b_successful st + length (filter succeeded outs),
        b_failed := b_failed st + length (filter (\<lambda>out. \<not> succeeded out) outs)\<rparr>"
proof (induction outs arbitrary: n st)
  case Nil
  show ?case by simp
next
  case (Cons out outs)
  show ?case
    unfolding enumerate_simps list.map prod.case process_completed.simps task_value_step Cons.IH
    by simp
qed


lemma batch_parallel:
  assumes "parallel b"
  shows "batch_generate_images E b w =
     (Inr \<lparr>total = length (requests b),
           successful = length (filter succeeded (fst (run_all E (requests b) w))),
           failed = length (filter (\<lambda>out. \<not> succeeded out) (fst (run_all E (requests b) w))),
           results = map outcome_result (fst (run_all E (requests b) w)),
           errors = map (\<lambda>(i, out). parallel_error E b i out)
                      (List.enumerate 0 (fst (run_all E (requests b) w)))\<rparr>,
      snd (run_all E (requests b) w))"
  using assms
  by (simp add: batch_generate_images_def gather_tasks process_completed_tasks)















text \<open>
  C7 (as the code has it). A batch request whose list is empty violates \<open>min_items = 1\<close>:
  the route rejects it with a validation error and nothing is run. (The handler itself,
  were it given an empty list, would return \<open>total = 0\<close>, \<open>successful = 0\<close>, \<open>failed = 0\<close> and
  no outcomes.)
\<close>

theorem empty_batch_rejected:
  assumes "requests b = []"
  shows "post_batch E b w = (Inl (RequestValidationError ''body''), w)
     \<and> batch_generate_images E b w =
         (Inr \<lparr>total = 0, successful = 0, failed = 0, results = [], errors = []\<rparr>, w)"
  using assms
  by (simp add: post_batch_def BatchGenerationRequest_valid_def batch_generate_images_def Let_def)

theorem empty_batch_rejected_witness:
  "requests \<lparr>requests = [], parallel = True, continue_on_error = True\<rparr> = []
   \<and> post_batch env_flaky \<lparr>requests = [], parallel = True, continue_on_error = True\<rparr> world_init =
       (Inl (RequestValidationError ''body''), world_init)"
  using empty_batch_rejected [of "\<lparr>requests = [], parallel = True, continue_on_error = True\<rparr>"
      env_flaky world_init]
  by simp

text \<open>
  C7 as stated fails: the empty batch is not accepted.
\<close>

theorem empty_batch_counterexample:
  "fst (post_batch env_flaky \<lparr>requests = [], parallel = True, continue_on_error = True\<rparr> world_init) =
     Inl (RequestValidationError ''body'')"
  by (simp add: post_batch_def BatchGenerationRequest_valid_def)

subsection \<open>Only completed generations are cached\<close>

lemma generate_image_cases:
  obtains
    (hit) d w0 where "cache_lookup r (generate_cache_key E r) w = (Some d, w0)"
      and "generate_image E r w = (Inr (GenerationResponse d True), w0)"
  | (failed) w0 g w1 w2 e where "cache_lookup r (generate_cache_key E r) w = (None, w0)"
      and "db_add r ''processing'' w0 = (g, w1)"
      and "generation_cache w2 = generation_cache w0"
      and "generate_image E r w = handle_exception E g e w2"
  | (completed) w0 g w1 w2 rc res rs where
      "cache_lookup r (generate_cache_key E r) w = (None, w0)"
      and "db_add r ''processing'' w0 = (g, w1)"
      and "generation_cache w2 = generation_cache w0"
      and "generate_image E r w =
             complete_generation r (generate_cache_key E r) (clock w) g (rc, Some res, rs) w2"
proof -
  let ?key = "generate_cache_key E r"
  obtain c w0 where cl: "cache_lookup r ?key w = (c, w0)" by (metis surj_pair)
  show ?thesis
  proof (cases c)
    case (Some d)
    have "generate_image E r w = (Inr (GenerationResponse d True), w0)"
      using cl Some by (simp add: generate_image_def Let_def)
    then show ?thesis using hit cl Some by simp
  next
    case None
    note cl = cl [unfolded None]
    obtain g w1 where da: "db_add r ''processing'' w0 = (g, w1)"
      and c1: "generation_cache w1 = generation_cache w0"
      by (rule db_add_obtain)
    obtain x w2 where ga: "generate_attempts E r w1 = (x, w2)" by (metis surj_pair)
    have "calls_only w1 w2" using generate_attempts_calls_only [of w1 E r] ga by simp
    then have c2: "generation_cache w2 = generation_cache w0"
      unfolding calls_only_def c1 by simp
    show ?thesis
    proof (cases x)
      case (Inl e')
      then show ?thesis using generate_image_unfold(1) [OF cl da] ga failed [OF cl da c2] by simp
    next
      case (Inr y)
      obtain rc result rs where y: "y = (rc, result, rs)" by (cases y)
      show ?thesis
      proof (cases result)
        case None
        have "generate_image E r w = handle_exception E g (PyException NoneType_has_no_get) w2"
          using generate_image_unfold(3) [OF cl da] ga Inr y None complete_generation_None by simp
        then show ?thesis by (rule failed [OF cl da c2])
      next
        case (Some res)
        note cg = complete_generation_Some [of r ?key "clock w" g rc res rs w2]
        have "generate_image E r w = complete_generation r ?key (clock w) g (rc, Some res, rs) w2"
          using generate_image_unfold(2) [OF cl da] ga Inr y Some cg by simp
        then show ?thesis by (rule completed [OF cl da c2])
      qed
    qed
  qed
qed

lemma cache_lookup_Some:
  assumes "cache_lookup r key w = (Some d, w0)"
  shows "\<exists>e. generation_cache w key = Some e \<and> data e = d"
  using assms
  by (auto simp: cache_lookup_def get_cached_result_def split: if_splits option.splits)

lemma generate_image_response_completed:
  assumes "cache_completed (generation_cache w)"
    and "fst (generate_image E r w) = Inr resp"
  shows "status resp = ''completed'' \<and> quality_score resp \<noteq> None"
proof (cases rule: generate_image_cases [of r E w])
  case (hit d w0)
  obtain e where "generation_cache w (generate_cache_key E r) = Some e" "data e = d"
    using cache_lookup_Some [OF hit(1)] by blast
  then have "status d = ''completed'' \<and> quality_score d \<noteq> None"
    using assms(1) unfolding cache_completed_def by blast
  then show ?thesis using assms(2) hit(2) by auto
next
  case (failed w0 g w1 w2 e)
  then show ?thesis using assms(2) by simp
next
  case (completed w0 g w1 w2 rc res rs)
  show ?thesis
    using assms(2) unfolding completed(4)
    by (subst (asm) complete_generation_Some) auto
qed

lemma run_all_cache_completed:
  "cache_completed (generation_cache w) \<Longrightarrow>
   cache_completed (generation_cache (snd (run_all E rs w)))"
  by (induction rs arbitrary: w) (simp_all add: generate_image_cache_completed)

lemma sequential_loop_cache_completed:
  "cache_completed (generation_cache w) \<Longrightarrow>
   cache_completed (generation_cache (snd (sequential_loop E b irs st w)))"
proof (induction E b irs st w rule: sequential_loop.induct)
  case (1 E request st w)
  then show ?case by simp
next
  case (2 E request i gen_request rest st w)
  obtain out w1 where g: "generate_image E gen_request w = (out, w1)" by (metis surj_pair)
  have c1: "cache_completed (generation_cache w1)"
    using generate_image_cache_completed [OF "2.prems", of E gen_request] g by simp
  show ?case
  proof (cases out)
    case (Inr result)
    then show ?thesis using "2.IH"(2) [OF g [symmetric] Inr c1] g by simp
  next
    case (Inl e)
    show ?thesis
    proof (cases "continue_on_error request")
      case True
      then have "\<not> \<not> continue_on_error request" by simp
      from "2.IH"(1) [OF g [symmetric] Inl this c1] show ?thesis using g Inl True by simp
    next
      case False
      then show ?thesis using g Inl c1 by simp
    qed
  qed
qed

lemma batch_cache_completed:
  assumes "cache_completed (generation_cache w)"
  shows "cache_completed (generation_cache (snd (batch_generate_images E b w)))"
proof (cases "parallel b")
  case True
  show ?thesis unfolding batch_parallel [OF True] using run_all_cache_completed [OF assms] by simp
next
  case False
  have "snd (batch_generate_images E b w) =
          snd (sequential_loop E b (List.enumerate 0 (requests b))
                 \<lparr>b_results = [], b_errors = [], b_successful = 0, b_failed = 0\<rparr> w)"
    using False by (simp add: batch_generate_images_def Let_def split: prod.splits sum.splits)
  then show ?thesis using sequential_loop_cache_completed [OF assms] by simp
qed

lemma reachable_cache_completed:
  "reachable E w \<Longrightarrow> cache_completed (generation_cache w)"
proof (induction rule: reachable.induct)
  case (start w)
  then show ?case by (simp add: cache_completed_def)
next
  case (single w r)
  then show ?case by (simp add: generate_image_cache_completed)
next
  case (batch w b)
  then show ?case by (simp add: batch_cache_completed)
next
  case (clear w)
  then show ?case by (simp add: cache_completed_def)
next
  case (tick w t)
  then show ?case by simp
qed

text \<open>
  C10. An entry found in the cache after a run of the handler was there before the run, or
  it is the payload of this run's own successful response, stored under the request's key:
  its status is \<open>completed\<close> and it carries the quality score (and the retry count, a
  field of every payload). A run that raises stores nothing: every entry of the cache
  after it was there before. Hence in every reachable world all cached payloads are those
  of completed generations, and every response the handler returns, cached or fresh, has
  status \<open>completed\<close> and a quality score.
\<close>

theorem cache_holds_completed_only:
  "(generation_cache (snd (generate_image E r w)) k = Some e \<longrightarrow>
      generation_cache w k = Some e
      \<or> (use_cache r \<and> k = generate_cache_key E r
         \<and> fst (generate_image E r w) = Inr (GenerationResponse (data e) False)
         \<and> status (data e) = ''completed'' \<and> quality_score (data e) \<noteq> None))
   \<and> (fst (generate_image E r w) = Inl x \<longrightarrow>
        generation_cache (snd (generate_image E r w)) \<subseteq>\<^sub>m generation_cache w)
   \<and> (reachable E w \<longrightarrow>
        cache_completed (generation_cache w)
        \<and> (\<forall>resp. fst (generate_image E r w) = Inr resp \<longrightarrow>
              status resp = ''completed'' \<and> quality_score resp \<noteq> None))"
proof (intro conjI impI allI)
  assume "generation_cache (snd (generate_image E r w)) k = Some e"
  then show "generation_cache w k = Some e
      \<or> (use_cache r \<and> k = generate_cache_key E r
         \<and> fst (generate_image E r w) = Inr (GenerationResponse (data e) False)
         \<and> status (data e) = ''completed'' \<and> quality_score (data e) \<noteq> None)"
    by (rule generate_image_cache_step)
next
  assume "fst (generate_image E r w) = Inl x"
  then show "generation_cache (snd (generate_image E r w)) \<subseteq>\<^sub>m generation_cache w"
    using generate_image_failure_cache [of E r w x] unfolding map_le_def by (metis domD)
next
  assume "reachable E w"
  then show "cache_completed (generation_cache w)" by (rule reachable_cache_completed)
next
  fix resp assume "reachable E w" "fst (generate_image E r w) = Inr resp"
  then show "status resp = ''completed''" "quality_score resp \<noteq> None"
    using generate_image_response_completed reachable_cache_completed by blast+
qed

lemma generate_image_stores:
  assumes "use_cache r" and "fst (cache_lookup r (generate_cache_key E r) w) = None"
    and "fst (generate_image E r w) = Inr resp"
  shows "\<exists>e. generation_cache (snd (generate_image E r w)) (generate_cache_key E r) = Some e
           \<and> GenerationResponse (data e) False = resp"
proof (cases rule: generate_image_cases [of r E w])
  case (hit d w0)
  then show ?thesis using assms(2) by simp
next
  case (failed w0 g w1 w2 e)
  then show ?thesis using assms(3) by simp
next
  case (completed w0 g w1 w2 rc res rs)
  show ?thesis
    using assms(1,3) unfolding completed(4)
    by (auto simp: complete_generation_def Let_def cache_result_def)
qed

lemma sample_failure:
  "\<exists>x w'. generate_image env_down request_manual world_init = (Inl x, w')"
proof -
  have "\<forall>j\<le>3. fibo_api env_down (upstream_calls world_init + j) =
           Inl ((\<lambda>j. PyException ''FIBO API error: 503'') j)"
    "max_retries request_manual = 3"
    by (simp_all add: env_down_def env_flaky_def request_manual_def)
  from generate_image_retry_failure [OF world_init_miss this]
  show ?thesis by blast
qed

theorem cache_holds_completed_only_witness:
  "(\<exists>e. generation_cache (snd (generate_image env_flaky request_manual world_init))
            (generate_cache_key env_flaky request_manual) = Some e
        \<and> status (data e) = ''completed'' \<and> quality_score (data e) \<noteq> None)
   \<and> (\<exists>x. fst (generate_image env_down request_manual world_init) = Inl x)
   \<and> generation_cache (snd (generate_image env_down request_manual world_init))
        \<subseteq>\<^sub>m generation_cache world_init
   \<and> reachable env_flaky (snd (generate_image env_flaky request_manual world_init))
   \<and> cache_completed (generation_cache (snd (generate_image env_flaky request_manual world_init)))"
proof -
  let ?w1 = "snd (generate_image env_flaky request_manual world_init)"
  let ?key = "generate_cache_key env_flaky request_manual"
  obtain resp where ok: "fst (generate_image env_flaky request_manual world_init) = Inr resp"
    using sample_run by auto
  have uc: "use_cache request_manual" by (simp add: request_manual_def)
  obtain e where e: "generation_cache ?w1 ?key = Some e"
    using generate_image_stores [OF uc world_init_miss ok] by blast
  have empty: "generation_cache world_init ?key = None" by (simp add: world_init_def)
  have a: "status (data e) = ''completed'' \<and> quality_score (data e) \<noteq> None"
    using cache_holds_completed_only [of env_flaky request_manual world_init ?key e] e empty
    by simp
  obtain x where bad: "fst (generate_image env_down request_manual world_init) = Inl x"
    using sample_failure by auto
  have b: "generation_cache (snd (generate_image env_down request_manual world_init))
        \<subseteq>\<^sub>m generation_cache world_init"
    using cache_holds_completed_only [of env_down request_manual world_init _ _ x] bad by blast
  have r0: "reachable env_flaky world_init"
    by (rule reachable.start) (simp add: world_init_def)
  have r1: "reachable env_flaky ?w1" using r0 by (rule reachable.single)
  have c: "cache_completed (generation_cache ?w1)"
    using cache_holds_completed_only [of env_flaky request_manual ?w1] r1 by blast
  show ?thesis using e a bad b r1 c by blast
qed

end
